theory Spec2Isabelle
  imports Main
begin

section \<open>Template resolution of pkg/oam/util/template.go\<close>

text \<open>
  The file resolves the template of a capability in two steps. \<open>LoadTemplate\<close> fetches the
  definition object of the requested kind and name through a read-only client, and
  \<open>NewTemplate\<close> extracts one \<open>Template\<close> from the schematic, status and extension fields of
  that object. \<open>ConvertTemplateJSON2Object\<close> builds a capability descriptor from the same
  extraction.

  Go conventions of the embedding: a pointer that may be nil is an \<open>option\<close>, a returned
  pair \<open>(value, err)\<close> is a pair whose second component is \<open>None\<close> for a nil error, a
  \<open>map[string]T\<close> is a partial function, a \<open>[]byte\<close> is a \<open>string\<close>.
\<close>

subsection \<open>Types of the API packages\<close>

text \<open>
  \<open>types.CapType\<close> is a string type of apis/types. The switch of \<open>LoadTemplate\<close> names three
  of its constants; every other value of the type is \<open>CapTypeOther\<close>.
\<close>

datatype CapType = TypeComponentDefinition | TypeTrait | TypeScope | CapTypeOther string

text \<open>
  Modelled from the spec: \<open>types.CapabilityCategory\<close> and its constants are declared in
  apis/types. The categories are the three tags of the data model, \<open>PlainCategory\<close> being
  the zero value of the type, and \<open>string(types.TerraformCategory)\<close> is the literal
  \<open>terraform\<close>.
\<close>

datatype CapabilityCategory = PlainCategory | HelmCategory | TerraformCategory

definition TerraformCategory_string :: string where
  "TerraformCategory_string = ''terraform''"

record WorkloadGVK =
  APIVersion :: string
  Kind :: string

text \<open>\<open>v1alpha2.CUE\<close>: the field \<open>Template\<close> is \<open>cue_Template\<close> here.\<close>

record CUE =
  cue_Template :: string

text \<open>Both fields of \<open>v1alpha2.Helm\<close> are raw payloads, which this file never reads.\<close>

record Helm =
  Release :: string
  Repository :: string

record Schematic =
  CUE :: "CUE option"
  HELM :: "Helm option"

record Status =
  CustomStatus :: string
  HealthPolicy :: string

text \<open>\<open>runtime.RawExtension\<close>: \<open>Raw\<close> is a byte slice, \<open>None\<close> when it is nil.\<close>

record RawExtension =
  Raw :: "string option"

text \<open>
  The three definition objects, with the fields \<open>LoadTemplate\<close> reads:
  \<open>Annotations\<close>, \<open>Spec.Workload.Definition\<close> (component definitions only),
  \<open>Spec.Schematic\<close>, \<open>Spec.Status\<close> and \<open>Spec.Extension\<close>.
\<close>

record ComponentDefinition =
  cd_Annotations :: "string \<rightharpoonup> string"
  cd_Workload_Definition :: WorkloadGVK
  cd_Schematic :: "Schematic option"
  cd_Status :: "Status option"
  cd_Extension :: "RawExtension option"

record WorkloadDefinition =
  wd_Annotations :: "string \<rightharpoonup> string"
  wd_Schematic :: "Schematic option"
  wd_Status :: "Status option"
  wd_Extension :: "RawExtension option"

record TraitDefinition =
  td_Annotations :: "string \<rightharpoonup> string"
  td_Schematic :: "Schematic option"
  td_Status :: "Status option"
  td_Extension :: "RawExtension option"

text \<open>
  Modelled from the spec: \<open>types.Capability\<close> is declared in apis/types. \<open>Name\<close> and
  \<open>CueTemplate\<close> are the two fields this file assigns; the other fields of the descriptor
  are written by the JSON decoder only.
\<close>

record Capability =
  Name :: string
  CueTemplate :: string

subsection \<open>The Template\<close>

record Template =
  TemplateStr :: string
  Health :: string
  CustomStatus :: string
  CapabilityCategory :: CapabilityCategory
  Reference :: WorkloadGVK
  Helm :: "Helm option"

text \<open>The zero values that \<open>&Template{}\<close>, \<open>new(...)\<close> and \<open>var t\<close> allocate.\<close>

definition zero_WorkloadGVK :: WorkloadGVK where
  "zero_WorkloadGVK = \<lparr>APIVersion = [], Kind = []\<rparr>"

definition zero_Template :: Template where
  "zero_Template = \<lparr>TemplateStr = [], Health = [], CustomStatus = [],
     CapabilityCategory = PlainCategory, Reference = zero_WorkloadGVK, Helm = None\<rparr>"

definition zero_ComponentDefinition :: ComponentDefinition where
  "zero_ComponentDefinition = \<lparr>cd_Annotations = Map.empty,
     cd_Workload_Definition = zero_WorkloadGVK, cd_Schematic = None, cd_Status = None,
     cd_Extension = None\<rparr>"

definition zero_Capability :: Capability where
  "zero_Capability = \<lparr>Name = [], CueTemplate = []\<rparr>"

subsection \<open>Errors\<close>

text \<open>
  The errors the file receives and builds. \<open>NotFoundError\<close> and \<open>OtherError\<close> come from the
  client, \<open>SyntaxError\<close> and \<open>UnmarshalTypeError\<close> from \<open>json.Unmarshal\<close>.
  \<open>WithMessage e m\<close> is \<open>errors.WithMessagef(e, ...)\<close> and \<open>Wrap e m\<close> is
  \<open>errors.Wrapf(e, ...)\<close>, with \<open>m\<close> the formatted message; \<open>New m\<close> is \<open>errors.New(m)\<close>;
  \<open>KindNotSupported kd key\<close> is \<open>fmt.Errorf("kind(%s) of %s not supported", kd, key)\<close>.
\<close>

datatype error =
    NotFoundError string
  | OtherError string
  | SyntaxError string
  | UnmarshalTypeError string
  | WithMessage error string
  | Wrap error string
  | New string
  | KindNotSupported CapType string

text \<open>\<open>kerrors.IsNotFound\<close>: false on a nil error.\<close>

fun IsNotFound :: "error option \<Rightarrow> bool" where
  "IsNotFound (Some (NotFoundError _)) = True"
| "IsNotFound _ = False"

subsection \<open>JSON values and decoders\<close>

text \<open>
  What \<open>json.Unmarshal\<close> stores in an \<open>interface{}\<close>. A number keeps its literal, which
  the file never inspects.
\<close>

datatype json =
    JNull
  | JBool bool
  | JNumber string
  | JString string
  | JArray "json list"
  | JObject "(string \<times> json) list"

text \<open>
  \<open>encoding/json\<close> is a parameter of the model: \<open>map_decoder\<close> is
  \<open>json.Unmarshal(data, &extension)\<close> into a fresh \<open>map[string]interface{}\<close>, and
  \<open>capability_decoder\<close> is \<open>json.Unmarshal(data, &t)\<close> onto a descriptor, which returns the
  descriptor as the decoder left it together with the error.
\<close>

type_synonym map_decoder = "string \<Rightarrow> error + (string \<rightharpoonup> json)"

type_synonym capability_decoder = "string \<Rightarrow> Capability \<Rightarrow> Capability \<times> error option"

text \<open>The bytes handed to the decoder: a nil slice is the empty input.\<close>

definition raw_bytes :: "RawExtension \<Rightarrow> string" where
  "raw_bytes r = (case Raw r of None \<Rightarrow> [] | Some b \<Rightarrow> b)"

subsection \<open>NewTemplate\<close>

text \<open>
  The status is copied first. A CUE schematic returns at once, then a Helm schematic;
  only then is the extension decoded, and a decoding error returns \<open>(nil, err)\<close>.
\<close>

definition NewTemplate ::
  "map_decoder \<Rightarrow> Schematic option \<Rightarrow> Status option \<Rightarrow> RawExtension option
     \<Rightarrow> Template option \<times> error option" where
  "NewTemplate unmarshal schematic status raw =
     (let tmp = (case status of
                   None \<Rightarrow> zero_Template
                 | Some st \<Rightarrow> zero_Template\<lparr>CustomStatus := Status.CustomStatus st,
                                             Health := HealthPolicy st\<rparr>);
          returned = (case schematic of
                        None \<Rightarrow> None
                      | Some sch \<Rightarrow>
                          (case CUE sch of
                             Some c \<Rightarrow> Some (tmp\<lparr>TemplateStr := cue_Template c\<rparr>)
                           | None \<Rightarrow>
                               (case HELM sch of
                                  Some h \<Rightarrow> Some (tmp\<lparr>Helm := Some h,
                                                         CapabilityCategory := HelmCategory\<rparr>)
                                | None \<Rightarrow> None)))
      in case returned of
           Some t \<Rightarrow> (Some t, None)
         | None \<Rightarrow>
             (case raw of
                None \<Rightarrow> (Some tmp, None)
              | Some r \<Rightarrow>
                  if TemplateStr tmp = [] then
                    (case unmarshal (raw_bytes r) of
                       Inl err \<Rightarrow> (None, Some err)
                     | Inr extension \<Rightarrow>
                         (case extension ''template'' of
                            Some (JString tmpStr) \<Rightarrow> (Some (tmp\<lparr>TemplateStr := tmpStr\<rparr>), None)
                          | _ \<Rightarrow> (Some tmp, None)))
                  else (Some tmp, None)))"

subsection \<open>The client and LoadTemplate\<close>

text \<open>
  Modelled from the spec: \<open>GetDefinition\<close> is a function of this package outside this
  file, and the client behind it is an interface. A \<open>Reader\<close> gives, for each kind of
  definition and each name, the object found or the error of the query; a failed query
  leaves the object passed to it as it was allocated.
\<close>

record Reader =
  ComponentDefinitions :: "string \<Rightarrow> error + ComponentDefinition"
  WorkloadDefinitions :: "string \<Rightarrow> error + WorkloadDefinition"
  TraitDefinitions :: "string \<Rightarrow> error + TraitDefinition"

text \<open>The calls of \<open>GetDefinition\<close> a resolution makes, in order.\<close>

datatype query =
    GetComponentDefinition string
  | GetWorkloadDefinition string
  | GetTraitDefinition string

text \<open>An absent key of a Go map reads as the empty string.\<close>

definition annotation :: "(string \<rightharpoonup> string) \<Rightarrow> string \<Rightarrow> string" where
  "annotation m k = (case m k of None \<Rightarrow> [] | Some v \<Rightarrow> v)"

text \<open>
  Lines 70 to 81: what the component case does once the inner switch has chosen
  \<open>schematic\<close>, \<open>status\<close> and \<open>extension\<close>. The reference and the annotation are read from
  \<open>cd\<close> on both paths.
\<close>

definition component_template ::
  "map_decoder \<Rightarrow> string \<Rightarrow> ComponentDefinition \<Rightarrow> Schematic option \<Rightarrow> Status option
     \<Rightarrow> RawExtension option \<Rightarrow> Template option \<times> error option" where
  "component_template unmarshal key cd schematic status extension =
     (case NewTemplate unmarshal schematic status extension of
        (_, Some err) \<Rightarrow> (None, Some (WithMessage err (''LoadTemplate ['' @ key @ ''] '')))
      | (None, None) \<Rightarrow> (None, Some (New ''no template found in definition''))
      | (Some tmpl, None) \<Rightarrow>
          (let tmpl1 = tmpl\<lparr>Reference := cd_Workload_Definition cd\<rparr>;
               tmpl2 = (if annotation (cd_Annotations cd) ''type'' = TerraformCategory_string
                        then tmpl1\<lparr>CapabilityCategory := TerraformCategory\<rparr>
                        else tmpl1)
           in (Some tmpl2, None)))"

definition LoadTemplate ::
  "map_decoder \<Rightarrow> Reader \<Rightarrow> string \<Rightarrow> CapType
     \<Rightarrow> (Template option \<times> error option) \<times> query list" where
  "LoadTemplate unmarshal cli key kd =
     (case kd of
        TypeComponentDefinition \<Rightarrow>
          (let got = ComponentDefinitions cli key;
               err = (case got of Inl e \<Rightarrow> Some e | Inr _ \<Rightarrow> None);
               cd = (case got of Inl _ \<Rightarrow> zero_ComponentDefinition | Inr d \<Rightarrow> d)
           in if IsNotFound err then
                (case WorkloadDefinitions cli key of
                   Inl e \<Rightarrow>
                     ((None, Some (WithMessage e
                         (''LoadTemplate from WorkloadDefinition ['' @ key @ ''] ''))),
                      [GetComponentDefinition key, GetWorkloadDefinition key])
                 | Inr wd \<Rightarrow>
                     (component_template unmarshal key cd
                        (wd_Schematic wd) (wd_Status wd) (wd_Extension wd),
                      [GetComponentDefinition key, GetWorkloadDefinition key]))
              else
                (case err of
                   Some e \<Rightarrow>
                     ((None, Some (WithMessage e
                         (''LoadTemplate from ComponentDefinition ['' @ key @ ''] ''))),
                      [GetComponentDefinition key])
                 | None \<Rightarrow>
                     (component_template unmarshal key cd
                        (cd_Schematic cd) (cd_Status cd) (cd_Extension cd),
                      [GetComponentDefinition key])))
      | TypeTrait \<Rightarrow>
          (case TraitDefinitions cli key of
             Inl e \<Rightarrow>
               ((None, Some (WithMessage e (''LoadTemplate ['' @ key @ ''] ''))),
                [GetTraitDefinition key])
           | Inr td \<Rightarrow>
               (let capabilityCategory =
                      (if annotation (td_Annotations td) ''type'' = TerraformCategory_string
                       then TerraformCategory else PlainCategory)
                in (case NewTemplate unmarshal (td_Schematic td) (td_Status td)
                           (td_Extension td) of
                      (_, Some err) \<Rightarrow>
                        (None, Some (WithMessage err (''LoadTemplate ['' @ key @ ''] '')))
                    | (None, None) \<Rightarrow> (None, Some (New ''no template found in definition''))
                    | (Some tmpl, None) \<Rightarrow>
                        (Some (tmpl\<lparr>CapabilityCategory := capabilityCategory\<rparr>), None)),
                [GetTraitDefinition key]))
      | TypeScope \<Rightarrow> ((None, Some (KindNotSupported kd key)), [])
      | CapTypeOther _ \<Rightarrow> ((None, Some (KindNotSupported kd key)), []))"

subsection \<open>ConvertTemplateJSON2Object\<close>

text \<open>
  Lines 153 to 158: the extension is decoded onto the descriptor when both the pointer
  and its bytes are non-nil.
\<close>

definition unmarshal_extension ::
  "capability_decoder \<Rightarrow> RawExtension option \<Rightarrow> Capability \<Rightarrow> Capability \<times> error option" where
  "unmarshal_extension unmarshal_capability inp t =
     (case inp of
        None \<Rightarrow> (t, None)
      | Some r \<Rightarrow> (case Raw r of None \<Rightarrow> (t, None) | Some b \<Rightarrow> unmarshal_capability b t))"

text \<open>
  The result is \<open>None\<close> where the Go code would dereference a nil \<open>capTemplate\<close>, and
  \<open>Some (t, err)\<close> for a return.
\<close>

definition ConvertTemplateJSON2Object ::
  "map_decoder \<Rightarrow> capability_decoder \<Rightarrow> string \<Rightarrow> RawExtension option \<Rightarrow> Schematic option
     \<Rightarrow> (Capability \<times> error option) option" where
  "ConvertTemplateJSON2Object unmarshal unmarshal_capability capabilityName inp schematic =
     (let t = zero_Capability\<lparr>Name := capabilityName\<rparr>
      in case NewTemplate unmarshal schematic None inp of
           (_, Some err) \<Rightarrow> Some (t, Some (Wrap err ''parse cue template''))
         | (capTemplate, None) \<Rightarrow>
             (case unmarshal_extension unmarshal_capability inp t of
                (t1, Some err) \<Rightarrow> Some (t1, Some (Wrap err ''parse extension fail''))
              | (t1, None) \<Rightarrow>
                  (case capTemplate of
                     None \<Rightarrow> None
                   | Some tmpl \<Rightarrow>
                       Some (if TemplateStr tmpl \<noteq> []
                             then t1\<lparr>CueTemplate := TemplateStr tmpl\<rparr>
                             else t1, None))))"

subsection \<open>Concrete decoders and stores for the instances\<close>

text \<open>
  A decoder given by a table of payloads. It answers as \<open>encoding/json\<close> does on the
  payloads listed and on the truncated object \<open>{\<close>; the theorems below hold for every
  decoder, and the instances only decode these payloads.
\<close>

definition table_Unmarshal :: map_decoder where
  \<open>table_Unmarshal data =
     (if data = ''{"template":"patch: {}"}'' then Inr [''template'' \<mapsto> JString ''patch: {}'']
      else if data = ''{"template":1}'' then Inr [''template'' \<mapsto> JNumber ''1'']
      else if data = ''{}'' then Inr Map.empty
      else Inl (SyntaxError ''unexpected end of JSON input''))\<close>

definition table_Unmarshal_Capability :: capability_decoder where
  \<open>table_Unmarshal_Capability data t =
     (if data = ''{"template":"patch: {}"}'' then (t\<lparr>CueTemplate := ''patch: {}''\<rparr>, None)
      else if data = ''{}'' then (t, None)
      else (t, Some (SyntaxError ''unexpected end of JSON input'')))\<close>

definition no_definitions :: Reader where
  "no_definitions = \<lparr>ComponentDefinitions = (\<lambda>n. Inl (NotFoundError n)),
     WorkloadDefinitions = (\<lambda>n. Inl (NotFoundError n)),
     TraitDefinitions = (\<lambda>n. Inl (NotFoundError n))\<rparr>"

text \<open>
  A store with a few definitions. The component \<open>worker\<close> has both schematic variants, a
  truncated extension and the terraform annotation; \<open>legacy\<close> exists as a workload
  definition only; \<open>bare\<close> has no schematic, no status and no extension; the \<open>broken\<close>
  ones have a status and a truncated extension; the trait \<open>chart\<close> has a Helm schematic
  only; the trait \<open>scaler\<close> has a template in its extension.
\<close>

definition sample_Helm :: Helm where
  "sample_Helm = \<lparr>Release = ''{}'', Repository = ''{}''\<rparr>"

definition sample_Status :: Status where
  "sample_Status = \<lparr>Status.CustomStatus = ''message: ready'', HealthPolicy = ''isHealth: true''\<rparr>"

definition sample_store :: Reader where
  \<open>sample_store = \<lparr>
     ComponentDefinitions = (\<lambda>n.
       if n = ''worker'' then
         Inr \<lparr>cd_Annotations = [''type'' \<mapsto> ''terraform''],
              cd_Workload_Definition = \<lparr>APIVersion = ''apps/v1'', Kind = ''Deployment''\<rparr>,
              cd_Schematic = Some \<lparr>CUE = Some \<lparr>cue_Template = ''output: {}''\<rparr>,
                                   HELM = Some sample_Helm\<rparr>,
              cd_Status = None,
              cd_Extension = Some \<lparr>Raw = Some ''{''\<rparr>\<rparr>
       else if n = ''bare'' then Inr zero_ComponentDefinition
       else if n = ''broken'' then
         Inr \<lparr>cd_Annotations = Map.empty,
              cd_Workload_Definition = \<lparr>APIVersion = ''apps/v1'', Kind = ''Deployment''\<rparr>,
              cd_Schematic = None,
              cd_Status = Some sample_Status,
              cd_Extension = Some \<lparr>Raw = Some ''{''\<rparr>\<rparr>
       else Inl (NotFoundError n)),
     WorkloadDefinitions = (\<lambda>n.
       if n = ''legacy'' then
         Inr \<lparr>wd_Annotations = [''type'' \<mapsto> ''terraform''],
              wd_Schematic = Some \<lparr>CUE = Some \<lparr>cue_Template = ''output: {}''\<rparr>, HELM = None\<rparr>,
              wd_Status = None,
              wd_Extension = None\<rparr>
       else if n = ''broken-legacy'' then
         Inr \<lparr>wd_Annotations = Map.empty,
              wd_Schematic = None,
              wd_Status = Some sample_Status,
              wd_Extension = Some \<lparr>Raw = Some ''{''\<rparr>\<rparr>
       else Inl (NotFoundError n)),
     TraitDefinitions = (\<lambda>n.
       if n = ''scaler'' then
         Inr \<lparr>td_Annotations = Map.empty, td_Schematic = None, td_Status = None,
              td_Extension = Some \<lparr>Raw = Some ''{"template":"patch: {}"}''\<rparr>\<rparr>
       else if n = ''chart'' then
         Inr \<lparr>td_Annotations = Map.empty,
              td_Schematic = Some \<lparr>CUE = None, HELM = Some sample_Helm\<rparr>,
              td_Status = None, td_Extension = None\<rparr>
       else if n = ''bare'' then
         Inr \<lparr>td_Annotations = Map.empty, td_Schematic = None, td_Status = None,
              td_Extension = None\<rparr>
       else if n = ''broken'' then
         Inr \<lparr>td_Annotations = Map.empty, td_Schematic = None,
              td_Status = Some sample_Status,
              td_Extension = Some \<lparr>Raw = Some ''{''\<rparr>\<rparr>
       else Inl (NotFoundError n))\<rparr>\<close>

section \<open>Properties\<close>

text \<open>
  C10. For every name, every store and every decoder, \<open>LoadTemplate\<close> of kind
  \<open>TypeScope\<close> returns no template and the unsupported-kind error, and makes no query.
\<close>

theorem LoadTemplate_scope_unsupported:
  "LoadTemplate unmarshal cli key TypeScope = ((None, Some (KindNotSupported TypeScope key)), [])"
  by (simp add: LoadTemplate_def)

subsection \<open>Facts about NewTemplate shared by the properties\<close>

lemma NewTemplate_never_nil: "NewTemplate unmarshal schematic status raw \<noteq> (None, None)"
  by (simp add: NewTemplate_def Let_def split: option.splits sum.splits json.splits)

lemma NewTemplate_CUE:
  assumes "schematic = Some sch" and "CUE sch = Some c"
  shows "\<exists>tmpl. NewTemplate unmarshal schematic status raw = (Some tmpl, None)
           \<and> TemplateStr tmpl = cue_Template c \<and> Helm tmpl = None
           \<and> CapabilityCategory tmpl = PlainCategory \<and> Reference tmpl = zero_WorkloadGVK"
  using assms by (simp add: NewTemplate_def Let_def zero_Template_def split: option.splits)

lemma NewTemplate_HELM:
  assumes "schematic = Some sch" and "CUE sch = None" and "HELM sch = Some h"
  shows "\<exists>tmpl. NewTemplate unmarshal schematic status raw = (Some tmpl, None)
           \<and> TemplateStr tmpl = [] \<and> Helm tmpl = Some h
           \<and> CapabilityCategory tmpl = HelmCategory"
  using assms by (simp add: NewTemplate_def Let_def zero_Template_def split: option.splits)

lemma NewTemplate_malformed:
  assumes "\<forall>sch. schematic = Some sch \<longrightarrow> CUE sch = None \<and> HELM sch = None"
    and "unmarshal (raw_bytes r) = Inl cause"
  shows "NewTemplate unmarshal schematic status (Some r) = (None, Some cause)"
  using assms
  by (cases schematic; cases status) (simp_all add: NewTemplate_def Let_def zero_Template_def)

text \<open>
  Since \<open>NewTemplate\<close> never returns a nil template with a nil error, the branch of
  \<open>LoadTemplate\<close> that reports a missing template is never taken.
\<close>

lemma component_template_never_reports_missing:
  "snd (component_template unmarshal key cd schematic status extension)
     \<noteq> Some (New ''no template found in definition'')"
  using NewTemplate_never_nil [of unmarshal schematic status extension]
  by (auto simp add: component_template_def Let_def split: prod.splits option.splits)

lemma LoadTemplate_never_reports_missing:
  "snd (fst (LoadTemplate unmarshal cli key kd)) \<noteq> Some (New ''no template found in definition'')"
proof (cases kd)
  case TypeComponentDefinition
  then show ?thesis
    using component_template_never_reports_missing [of unmarshal key]
    by (auto simp add: LoadTemplate_def Let_def split: sum.splits option.splits)
next
  case TypeTrait
  show ?thesis
  proof (cases "TraitDefinitions cli key")
    case (Inl e)
    with TypeTrait show ?thesis by (simp add: LoadTemplate_def)
  next
    case (Inr td)
    with TypeTrait show ?thesis
      using NewTemplate_never_nil [of unmarshal "td_Schematic td" "td_Status td" "td_Extension td"]
      by (auto simp add: LoadTemplate_def Let_def split: prod.splits option.splits)
  qed
next
  case TypeScope
  then show ?thesis by (simp add: LoadTemplate_def)
next
  case (CapTypeOther s)
  then show ?thesis by (simp add: LoadTemplate_def)
qed

text \<open>
  On the component path a Helm schematic keeps the category \<open>NewTemplate\<close> gave it,
  unless the annotation asks for terraform.
\<close>

lemma LoadTemplate_component_helm:
  assumes "ComponentDefinitions cli key = Inr cd" and "cd_Schematic cd = Some sch"
    and "CUE sch = None" and "HELM sch = Some h"
    and "annotation (cd_Annotations cd) ''type'' \<noteq> TerraformCategory_string"
  shows "\<exists>tmpl. LoadTemplate unmarshal cli key TypeComponentDefinition =
                  ((Some tmpl, None), [GetComponentDefinition key])
           \<and> Helm tmpl = Some h \<and> CapabilityCategory tmpl = HelmCategory"
proof -
  obtain tmpl where
    "NewTemplate unmarshal (cd_Schematic cd) (cd_Status cd) (cd_Extension cd) = (Some tmpl, None)"
    "Helm tmpl = Some h" "CapabilityCategory tmpl = HelmCategory"
    using NewTemplate_HELM [OF assms(2,3,4)] by blast
  then show ?thesis
    using assms(1,5) by (simp add: LoadTemplate_def component_template_def Let_def)
qed

subsection \<open>Empty extraction\<close>

text \<open>
  C1. The claim is that a definition whose fields give an empty extraction (no template
  string, no Helm reference) makes \<open>LoadTemplate\<close> fail with the missing-template error.
  On the definitions named \<open>bare\<close>, which have no schematic, no status and no extension,
  \<open>LoadTemplate\<close> returns the empty template and a nil error, for the trait kind and for
  the component kind.
\<close>

theorem LoadTemplate_bare_returns_empty_template:
  "LoadTemplate table_Unmarshal sample_store ''bare'' TypeTrait =
     ((Some zero_Template, None), [GetTraitDefinition ''bare''])
   \<and> LoadTemplate table_Unmarshal sample_store ''bare'' TypeComponentDefinition =
     ((Some zero_Template, None), [GetComponentDefinition ''bare''])"
  by (simp add: LoadTemplate_def component_template_def NewTemplate_def sample_store_def
        zero_Template_def zero_ComponentDefinition_def annotation_def TerraformCategory_string_def)

subsection \<open>Helm schematics\<close>

text \<open>
  C2. The claim is that a definition with a Helm schematic, no CUE schematic and no
  terraform annotation resolves to a template with that Helm reference and the Helm
  category. For the trait \<open>chart\<close> the Helm reference is returned, but the category is
  the plain one: the trait case assigns the category computed from the annotation over
  the one \<open>NewTemplate\<close> set.
\<close>

theorem LoadTemplate_trait_helm_category_plain:
  "LoadTemplate table_Unmarshal sample_store ''chart'' TypeTrait =
     ((Some (zero_Template\<lparr>Helm := Some sample_Helm, CapabilityCategory := PlainCategory\<rparr>),
       None),
      [GetTraitDefinition ''chart''])"
  by (simp add: LoadTemplate_def NewTemplate_def sample_store_def
        zero_Template_def annotation_def TerraformCategory_string_def)


subsection \<open>Malformed extensions\<close>

text \<open>
  C3, as claimed: a malformed extension makes the resolution fail whatever the other
  fields are. It does not: the component \<open>worker\<close> has the extension \<open>{\<close>, which the
  decoder rejects, and a CUE schematic, and both \<open>NewTemplate\<close> and \<open>LoadTemplate\<close> return
  its CUE template with a nil error.
\<close>

theorem malformed_extension_ignored_after_CUE:
  "table_Unmarshal (raw_bytes \<lparr>Raw = Some ''{''\<rparr>)
     = Inl (SyntaxError ''unexpected end of JSON input'')
   \<and> NewTemplate table_Unmarshal
        (Some \<lparr>CUE = Some \<lparr>cue_Template = ''output: {}''\<rparr>, HELM = Some sample_Helm\<rparr>) None
        (Some \<lparr>Raw = Some ''{''\<rparr>)
      = (Some (zero_Template\<lparr>TemplateStr := ''output: {}''\<rparr>), None)
   \<and> LoadTemplate table_Unmarshal sample_store ''worker'' TypeComponentDefinition
      = ((Some (zero_Template\<lparr>TemplateStr := ''output: {}'',
                   CapabilityCategory := TerraformCategory,
                   Reference := \<lparr>APIVersion = ''apps/v1'', Kind = ''Deployment''\<rparr>\<rparr>), None),
         [GetComponentDefinition ''worker''])"
  by (simp add: LoadTemplate_def component_template_def NewTemplate_def sample_store_def
        table_Unmarshal_def raw_bytes_def zero_Template_def annotation_def
        TerraformCategory_string_def)

text \<open>
  C3, amended: when the schematic is absent or has neither a CUE nor a Helm variant, and
  the decoder rejects the bytes of the extension with \<open>cause\<close>, \<open>NewTemplate\<close> returns no
  template and \<open>cause\<close>, whatever the status; and \<open>LoadTemplate\<close> returns no template and
  \<open>cause\<close> under the message \<open>LoadTemplate [key]\<close>, for a trait definition, for a component
  definition and for the workload definition found after a component definition was not.
\<close>

theorem malformed_extension_fails:
  assumes "\<forall>sch. schematic = Some sch \<longrightarrow> CUE sch = None \<and> HELM sch = None"
    and "unmarshal (raw_bytes r) = Inl cause"
  shows "NewTemplate unmarshal schematic status (Some r) = (None, Some cause)
    \<and> (TraitDefinitions cli key = Inr td \<and> td_Schematic td = schematic
         \<and> td_Status td = status \<and> td_Extension td = Some r \<longrightarrow>
       LoadTemplate unmarshal cli key TypeTrait =
         ((None, Some (WithMessage cause (''LoadTemplate ['' @ key @ ''] ''))),
          [GetTraitDefinition key]))
    \<and> (ComponentDefinitions cli key = Inr cd \<and> cd_Schematic cd = schematic
         \<and> cd_Status cd = status \<and> cd_Extension cd = Some r \<longrightarrow>
       LoadTemplate unmarshal cli key TypeComponentDefinition =
         ((None, Some (WithMessage cause (''LoadTemplate ['' @ key @ ''] ''))),
          [GetComponentDefinition key]))
    \<and> (ComponentDefinitions cli key = Inl e \<and> IsNotFound (Some e)
         \<and> WorkloadDefinitions cli key = Inr wd \<and> wd_Schematic wd = schematic
         \<and> wd_Status wd = status \<and> wd_Extension wd = Some r \<longrightarrow>
       LoadTemplate unmarshal cli key TypeComponentDefinition =
         ((None, Some (WithMessage cause (''LoadTemplate ['' @ key @ ''] ''))),
          [GetComponentDefinition key, GetWorkloadDefinition key]))"
proof -
  have nt: "NewTemplate unmarshal schematic status (Some r) = (None, Some cause)"
    using assms by (rule NewTemplate_malformed)
  have trait: "LoadTemplate unmarshal cli key TypeTrait =
         ((None, Some (WithMessage cause (''LoadTemplate ['' @ key @ ''] ''))),
          [GetTraitDefinition key])"
    if "TraitDefinitions cli key = Inr td" "td_Schematic td = schematic"
       "td_Status td = status" "td_Extension td = Some r"
    using that nt by (simp add: LoadTemplate_def Let_def)
  have comp: "LoadTemplate unmarshal cli key TypeComponentDefinition =
         ((None, Some (WithMessage cause (''LoadTemplate ['' @ key @ ''] ''))),
          [GetComponentDefinition key])"
    if "ComponentDefinitions cli key = Inr cd" "cd_Schematic cd = schematic"
       "cd_Status cd = status" "cd_Extension cd = Some r"
    using that nt by (simp add: LoadTemplate_def component_template_def Let_def)
  have fallback: "LoadTemplate unmarshal cli key TypeComponentDefinition =
         ((None, Some (WithMessage cause (''LoadTemplate ['' @ key @ ''] ''))),
          [GetComponentDefinition key, GetWorkloadDefinition key])"
    if "ComponentDefinitions cli key = Inl e" "IsNotFound (Some e)"
       "WorkloadDefinitions cli key = Inr wd" "wd_Schematic wd = schematic"
       "wd_Status wd = status" "wd_Extension wd = Some r"
    using that nt by (simp add: LoadTemplate_def component_template_def Let_def)
  from nt trait comp fallback show ?thesis by blast
qed

text \<open>
  The amended C3 at the definitions named \<open>broken\<close> and \<open>broken-legacy\<close>, which have a
  status, no schematic and the extension \<open>{\<close>.
\<close>

theorem malformed_extension_fails_witness:
  "table_Unmarshal (raw_bytes \<lparr>Raw = Some ''{''\<rparr>)
     = Inl (SyntaxError ''unexpected end of JSON input'')
   \<and> NewTemplate table_Unmarshal None (Some sample_Status) (Some \<lparr>Raw = Some ''{''\<rparr>)
      = (None, Some (SyntaxError ''unexpected end of JSON input''))
   \<and> LoadTemplate table_Unmarshal sample_store ''broken'' TypeTrait
      = ((None, Some (WithMessage (SyntaxError ''unexpected end of JSON input'')
                        ''LoadTemplate [broken] '')),
         [GetTraitDefinition ''broken''])
   \<and> LoadTemplate table_Unmarshal sample_store ''broken'' TypeComponentDefinition
      = ((None, Some (WithMessage (SyntaxError ''unexpected end of JSON input'')
                        ''LoadTemplate [broken] '')),
         [GetComponentDefinition ''broken''])
   \<and> LoadTemplate table_Unmarshal sample_store ''broken-legacy'' TypeComponentDefinition
      = ((None, Some (WithMessage (SyntaxError ''unexpected end of JSON input'')
                        ''LoadTemplate [broken-legacy] '')),
         [GetComponentDefinition ''broken-legacy'', GetWorkloadDefinition ''broken-legacy''])"
proof -
  have dec: "table_Unmarshal (raw_bytes \<lparr>Raw = Some ''{''\<rparr>)
               = Inl (SyntaxError ''unexpected end of JSON input'')"
    by (simp add: table_Unmarshal_def raw_bytes_def)
  have none: "\<forall>sch. (None :: Schematic option) = Some sch \<longrightarrow> CUE sch = None \<and> HELM sch = None"
    by simp
  note inst = malformed_extension_fails
    [where schematic = None and unmarshal = table_Unmarshal and r = "\<lparr>Raw = Some ''{''\<rparr>"
       and cause = "SyntaxError ''unexpected end of JSON input''"
       and status = "Some sample_Status" and cli = sample_store, OF none dec]
  have a: "NewTemplate table_Unmarshal None (Some sample_Status) (Some \<lparr>Raw = Some ''{''\<rparr>)
      = (None, Some (SyntaxError ''unexpected end of JSON input''))"
    using inst [where key = "[]"] by simp
  have b: "LoadTemplate table_Unmarshal sample_store ''broken'' TypeTrait
      = ((None, Some (WithMessage (SyntaxError ''unexpected end of JSON input'')
                        ''LoadTemplate [broken] '')),
         [GetTraitDefinition ''broken''])"
    using inst [where key = "''broken''" and td =
        "\<lparr>td_Annotations = Map.empty, td_Schematic = None, td_Status = Some sample_Status,
          td_Extension = Some \<lparr>Raw = Some ''{''\<rparr>\<rparr>"]
    by (simp add: sample_store_def)
  have c: "LoadTemplate table_Unmarshal sample_store ''broken'' TypeComponentDefinition
      = ((None, Some (WithMessage (SyntaxError ''unexpected end of JSON input'')
                        ''LoadTemplate [broken] '')),
         [GetComponentDefinition ''broken''])"
    using inst [where key = "''broken''" and cd =
        "\<lparr>cd_Annotations = Map.empty,
          cd_Workload_Definition = \<lparr>APIVersion = ''apps/v1'', Kind = ''Deployment''\<rparr>,
          cd_Schematic = None, cd_Status = Some sample_Status,
          cd_Extension = Some \<lparr>Raw = Some ''{''\<rparr>\<rparr>"]
    by (simp add: sample_store_def)
  have d: "LoadTemplate table_Unmarshal sample_store ''broken-legacy'' TypeComponentDefinition
      = ((None, Some (WithMessage (SyntaxError ''unexpected end of JSON input'')
                        ''LoadTemplate [broken-legacy] '')),
         [GetComponentDefinition ''broken-legacy'', GetWorkloadDefinition ''broken-legacy''])"
    using inst [where key = "''broken-legacy''" and e = "NotFoundError ''broken-legacy''" and wd =
        "\<lparr>wd_Annotations = Map.empty, wd_Schematic = None, wd_Status = Some sample_Status,
          wd_Extension = Some \<lparr>Raw = Some ''{''\<rparr>\<rparr>"]
    by (simp add: sample_store_def)
  from dec a b c d show ?thesis by simp
qed


subsection \<open>Component definitions and the workload fallback\<close>

text \<open>
  C4. When the component definition is found and its schematic has a CUE variant,
  \<open>LoadTemplate\<close> returns a template whose template string is the CUE template and whose
  Helm reference is nil, whatever the Helm variant, the status and the extension are.
\<close>

theorem LoadTemplate_component_CUE:
  assumes "ComponentDefinitions cli key = Inr cd" and "cd_Schematic cd = Some sch"
    and "CUE sch = Some c"
  shows "\<exists>tmpl. LoadTemplate unmarshal cli key TypeComponentDefinition =
                  ((Some tmpl, None), [GetComponentDefinition key])
           \<and> TemplateStr tmpl = cue_Template c \<and> Helm tmpl = None"
proof -
  obtain tmpl where t:
    "NewTemplate unmarshal (cd_Schematic cd) (cd_Status cd) (cd_Extension cd) = (Some tmpl, None)"
    "TemplateStr tmpl = cue_Template c" "Helm tmpl = None"
    using NewTemplate_CUE [OF assms(2,3)] by blast
  show ?thesis using assms(1) t
    by (simp add: LoadTemplate_def component_template_def Let_def)
qed

text \<open>
  C4 at the component \<open>worker\<close>, which has a CUE variant, a Helm variant and a truncated
  extension.
\<close>

theorem LoadTemplate_component_CUE_witness:
  "\<exists>tmpl. LoadTemplate table_Unmarshal sample_store ''worker'' TypeComponentDefinition =
            ((Some tmpl, None), [GetComponentDefinition ''worker''])
     \<and> TemplateStr tmpl = ''output: {}'' \<and> Helm tmpl = None"
  using LoadTemplate_component_CUE
    [where cli = sample_store and key = "''worker''" and unmarshal = table_Unmarshal
       and sch = "\<lparr>CUE = Some \<lparr>cue_Template = ''output: {}''\<rparr>, HELM = Some sample_Helm\<rparr>"
       and c = "\<lparr>cue_Template = ''output: {}''\<rparr>"]
  by (simp add: sample_store_def)

text \<open>
  C5. When the component definition is not found and the workload definition of the
  same name is found with a CUE variant, \<open>LoadTemplate\<close> returns a template with that CUE
  template, the zero reference and the plain category, whatever the annotations of the
  workload definition are.
\<close>

theorem LoadTemplate_workload_fallback_CUE:
  assumes "ComponentDefinitions cli key = Inl e" and "IsNotFound (Some e)"
    and "WorkloadDefinitions cli key = Inr wd" and "wd_Schematic wd = Some sch"
    and "CUE sch = Some c"
  shows "\<exists>tmpl. LoadTemplate unmarshal cli key TypeComponentDefinition =
                  ((Some tmpl, None), [GetComponentDefinition key, GetWorkloadDefinition key])
           \<and> TemplateStr tmpl = cue_Template c \<and> Reference tmpl = zero_WorkloadGVK
           \<and> CapabilityCategory tmpl = PlainCategory"
proof -
  obtain tmpl where t:
    "NewTemplate unmarshal (wd_Schematic wd) (wd_Status wd) (wd_Extension wd) = (Some tmpl, None)"
    "TemplateStr tmpl = cue_Template c" "CapabilityCategory tmpl = PlainCategory"
    using NewTemplate_CUE [OF assms(4,5)] by blast
  show ?thesis using assms(1,2,3) t
    by (simp add: LoadTemplate_def component_template_def Let_def zero_ComponentDefinition_def
          annotation_def TerraformCategory_string_def)
qed

text \<open>
  C5 at \<open>legacy\<close>, a workload definition with a CUE variant and the terraform annotation.
\<close>

theorem LoadTemplate_workload_fallback_CUE_witness:
  "annotation [''type'' \<mapsto> ''terraform''] ''type'' = TerraformCategory_string
   \<and> (\<exists>tmpl. LoadTemplate table_Unmarshal sample_store ''legacy'' TypeComponentDefinition =
            ((Some tmpl, None),
             [GetComponentDefinition ''legacy'', GetWorkloadDefinition ''legacy''])
     \<and> TemplateStr tmpl = ''output: {}'' \<and> Reference tmpl = zero_WorkloadGVK
     \<and> CapabilityCategory tmpl = PlainCategory)"
  using LoadTemplate_workload_fallback_CUE
    [where cli = sample_store and key = "''legacy''" and unmarshal = table_Unmarshal
       and e = "NotFoundError ''legacy''"
       and wd = "\<lparr>wd_Annotations = [''type'' \<mapsto> ''terraform''],
              wd_Schematic = Some \<lparr>CUE = Some \<lparr>cue_Template = ''output: {}''\<rparr>, HELM = None\<rparr>,
              wd_Status = None, wd_Extension = None\<rparr>"
       and sch = "\<lparr>CUE = Some \<lparr>cue_Template = ''output: {}''\<rparr>, HELM = None\<rparr>"
       and c = "\<lparr>cue_Template = ''output: {}''\<rparr>"]
  by (simp add: sample_store_def annotation_def TerraformCategory_string_def)

text \<open>
  C6. When the component definition is not found and the query for the workload
  definition fails with \<open>cause\<close>, whatever \<open>cause\<close> is, \<open>LoadTemplate\<close> returns no template
  and \<open>cause\<close> under a message that names \<open>WorkloadDefinition\<close> and the requested name.
\<close>

theorem LoadTemplate_workload_fallback_fails:
  assumes "ComponentDefinitions cli key = Inl e" and "IsNotFound (Some e)"
    and "WorkloadDefinitions cli key = Inl cause"
  shows "LoadTemplate unmarshal cli key TypeComponentDefinition =
           ((None, Some (WithMessage cause
               (''LoadTemplate from WorkloadDefinition ['' @ key @ ''] ''))),
            [GetComponentDefinition key, GetWorkloadDefinition key])"
  using assms by (simp add: LoadTemplate_def)

text \<open>C6 at the name \<open>ghost\<close> in the store without definitions.\<close>

theorem LoadTemplate_workload_fallback_fails_witness:
  "LoadTemplate table_Unmarshal no_definitions ''ghost'' TypeComponentDefinition =
     ((None, Some (WithMessage (NotFoundError ''ghost'')
         ''LoadTemplate from WorkloadDefinition [ghost] '')),
      [GetComponentDefinition ''ghost'', GetWorkloadDefinition ''ghost''])"
  using LoadTemplate_workload_fallback_fails
    [where cli = no_definitions and key = "''ghost''" and e = "NotFoundError ''ghost''"
       and cause = "NotFoundError ''ghost''" and unmarshal = table_Unmarshal]
  by (simp add: no_definitions_def)


subsection \<open>What NewTemplate returns\<close>

text \<open>
  C7. \<open>NewTemplate\<close> returns an error exactly when the schematic is absent or has
  neither variant, the extension is non-nil and the decoder rejects its bytes. On every
  other input it returns a non-nil template and a nil error; with all three inputs nil
  that template is the empty one.
\<close>

theorem NewTemplate_fails_only_on_malformed_extension:
  "((snd (NewTemplate unmarshal schematic status raw) \<noteq> None) =
      ((\<forall>sch. schematic = Some sch \<longrightarrow> CUE sch = None \<and> HELM sch = None) \<and>
       (\<exists>r err. raw = Some r \<and> unmarshal (raw_bytes r) = Inl err)))
   \<and> (snd (NewTemplate unmarshal schematic status raw) = None \<longrightarrow>
        (\<exists>tmpl. NewTemplate unmarshal schematic status raw = (Some tmpl, None)))
   \<and> NewTemplate unmarshal None None None = (Some zero_Template, None)"
proof (intro conjI)
  show "(snd (NewTemplate unmarshal schematic status raw) \<noteq> None) =
      ((\<forall>sch. schematic = Some sch \<longrightarrow> CUE sch = None \<and> HELM sch = None) \<and>
       (\<exists>r err. raw = Some r \<and> unmarshal (raw_bytes r) = Inl err))"
    by (auto simp add: NewTemplate_def Let_def zero_Template_def
          split: option.splits sum.splits json.splits)
next
  show "snd (NewTemplate unmarshal schematic status raw) = None \<longrightarrow>
        (\<exists>tmpl. NewTemplate unmarshal schematic status raw = (Some tmpl, None))"
    using NewTemplate_never_nil [of unmarshal schematic status raw]
    by (cases "NewTemplate unmarshal schematic status raw") auto
next
  show "NewTemplate unmarshal None None None = (Some zero_Template, None)"
    by (simp add: NewTemplate_def)
qed

text \<open>
  C7 at three inputs without schematic and status: the truncated extension \<open>{\<close> gives an
  error, the extension \<open>{}\<close> gives a template, and no extension gives the empty template.
\<close>

theorem NewTemplate_fails_only_on_malformed_extension_witness:
  "snd (NewTemplate table_Unmarshal None None (Some \<lparr>Raw = Some ''{''\<rparr>)) \<noteq> None
   \<and> (\<exists>tmpl. NewTemplate table_Unmarshal None None (Some \<lparr>Raw = Some ''{}''\<rparr>)
                = (Some tmpl, None))
   \<and> NewTemplate table_Unmarshal None None None = (Some zero_Template, None)"
  using NewTemplate_fails_only_on_malformed_extension
          [where unmarshal = table_Unmarshal and schematic = None and status = None
             and raw = "Some \<lparr>Raw = Some ''{''\<rparr>"]
        NewTemplate_fails_only_on_malformed_extension
          [where unmarshal = table_Unmarshal and schematic = None and status = None
             and raw = "Some \<lparr>Raw = Some ''{}''\<rparr>"]
  by (simp add: table_Unmarshal_def raw_bytes_def)

text \<open>
  C8. When the status is non-nil, the template \<open>NewTemplate\<close> returns has the custom
  status and the health policy of that status, whichever of the CUE variant, the Helm
  variant and the extension gave the template.
\<close>

theorem NewTemplate_copies_status:
  assumes "NewTemplate unmarshal schematic (Some st) raw = (Some tmpl, err)"
  shows "CustomStatus tmpl = Status.CustomStatus st \<and> Health tmpl = HealthPolicy st"
  using assms
  by (auto simp add: NewTemplate_def Let_def zero_Template_def
        split: option.splits sum.splits json.splits if_splits)

text \<open>
  C8 with the status \<open>sample_Status\<close> on the three branches: a CUE variant, a Helm
  variant, and a template in the extension.
\<close>

theorem NewTemplate_copies_status_witness:
  "(\<exists>tmpl. NewTemplate table_Unmarshal
       (Some \<lparr>CUE = Some \<lparr>cue_Template = ''output: {}''\<rparr>, HELM = Some sample_Helm\<rparr>)
       (Some sample_Status) None = (Some tmpl, None)
     \<and> TemplateStr tmpl = ''output: {}''
     \<and> CustomStatus tmpl = ''message: ready'' \<and> Health tmpl = ''isHealth: true'')
   \<and> (\<exists>tmpl. NewTemplate table_Unmarshal (Some \<lparr>CUE = None, HELM = Some sample_Helm\<rparr>)
       (Some sample_Status) None = (Some tmpl, None)
     \<and> Helm tmpl = Some sample_Helm
     \<and> CustomStatus tmpl = ''message: ready'' \<and> Health tmpl = ''isHealth: true'')
   \<and> (\<exists>tmpl. NewTemplate table_Unmarshal None (Some sample_Status)
       (Some \<lparr>Raw = Some ''{\"template\":\"patch: {}\"}''\<rparr>) = (Some tmpl, None)
     \<and> TemplateStr tmpl = ''patch: {}''
     \<and> CustomStatus tmpl = ''message: ready'' \<and> Health tmpl = ''isHealth: true'')"
proof -
  let ?a = "zero_Template\<lparr>CustomStatus := ''message: ready'', Health := ''isHealth: true'',
              TemplateStr := ''output: {}''\<rparr>"
  let ?b = "zero_Template\<lparr>CustomStatus := ''message: ready'', Health := ''isHealth: true'',
              Helm := Some sample_Helm, CapabilityCategory := HelmCategory\<rparr>"
  let ?c = "zero_Template\<lparr>CustomStatus := ''message: ready'', Health := ''isHealth: true'',
              TemplateStr := ''patch: {}''\<rparr>"
  have a: "NewTemplate table_Unmarshal
       (Some \<lparr>CUE = Some \<lparr>cue_Template = ''output: {}''\<rparr>, HELM = Some sample_Helm\<rparr>)
       (Some sample_Status) None = (Some ?a, None)"
    by (simp add: NewTemplate_def sample_Status_def)
  have b: "NewTemplate table_Unmarshal (Some \<lparr>CUE = None, HELM = Some sample_Helm\<rparr>)
       (Some sample_Status) None = (Some ?b, None)"
    by (simp add: NewTemplate_def sample_Status_def)
  have c: "NewTemplate table_Unmarshal None (Some sample_Status)
       (Some \<lparr>Raw = Some ''{\"template\":\"patch: {}\"}''\<rparr>) = (Some ?c, None)"
    by (simp add: NewTemplate_def sample_Status_def table_Unmarshal_def raw_bytes_def
          zero_Template_def)
  show ?thesis
    using NewTemplate_copies_status [OF a] NewTemplate_copies_status [OF b]
      NewTemplate_copies_status [OF c] a b c
    by (simp add: sample_Status_def)
qed

subsection \<open>The capability descriptor\<close>

text \<open>
  When the decoding of the extension onto the descriptor fails, the function returns at
  once with the descriptor as the decoder left it, and the extracted template string is
  not written to it.
\<close>

lemma ConvertTemplateJSON2Object_decode_error:
  assumes "NewTemplate unmarshal schematic None inp = (capTemplate, None)"
    and "unmarshal_extension unmarshal_capability inp (zero_Capability\<lparr>Name := capabilityName\<rparr>)
           = (t, Some err)"
  shows "ConvertTemplateJSON2Object unmarshal unmarshal_capability capabilityName inp schematic =
           Some (t, Some (Wrap err ''parse extension fail''))"
  using assms by (simp add: ConvertTemplateJSON2Object_def Let_def)

text \<open>
  C9, as claimed: whenever the extraction over the schematic and the extension gives a
  non-empty template string, the returned descriptor has that string as its CUE
  template. It does not: with the CUE template \<open>output: {}\<close> and the truncated extension
  \<open>{\<close>, the extraction gives \<open>output: {}\<close>, since the CUE variant returns before the
  extension is decoded, but the decoding onto the descriptor fails and the function
  returns the descriptor with an empty CUE template and the error
  \<open>parse extension fail\<close>.
\<close>

theorem ConvertTemplateJSON2Object_no_overlay_on_decode_error:
  "NewTemplate table_Unmarshal
     (Some \<lparr>CUE = Some \<lparr>cue_Template = ''output: {}''\<rparr>, HELM = None\<rparr>) None
     (Some \<lparr>Raw = Some ''{''\<rparr>)
     = (Some (zero_Template\<lparr>TemplateStr := ''output: {}''\<rparr>), None)
   \<and> ConvertTemplateJSON2Object table_Unmarshal table_Unmarshal_Capability ''worker''
     (Some \<lparr>Raw = Some ''{''\<rparr>)
     (Some \<lparr>CUE = Some \<lparr>cue_Template = ''output: {}''\<rparr>, HELM = None\<rparr>)
     = Some (\<lparr>Name = ''worker'', CueTemplate = []\<rparr>,
             Some (Wrap (SyntaxError ''unexpected end of JSON input'') ''parse extension fail''))"
  by (simp add: ConvertTemplateJSON2Object_def NewTemplate_def unmarshal_extension_def
        table_Unmarshal_Capability_def zero_Capability_def)

text \<open>
  C9, amended: when the extraction over the schematic and the extension gives the
  template \<open>capTemplate\<close> and the decoding of the extension onto the descriptor does not
  fail and gives \<open>t\<close> (the descriptor with its name only, when the extension or its bytes
  are nil), \<open>ConvertTemplateJSON2Object\<close> returns \<open>t\<close> with its CUE template replaced by
  the extracted template string when that string is non-empty, and \<open>t\<close> itself, with the
  CUE template the decoder gave it, when the string is empty.
\<close>

theorem ConvertTemplateJSON2Object_overlays_template:
  assumes "NewTemplate unmarshal schematic None inp = (Some capTemplate, None)"
    and "unmarshal_extension unmarshal_capability inp (zero_Capability\<lparr>Name := capabilityName\<rparr>)
           = (t, None)"
  shows "ConvertTemplateJSON2Object unmarshal unmarshal_capability capabilityName inp schematic =
           Some (if TemplateStr capTemplate \<noteq> []
                 then t\<lparr>CueTemplate := TemplateStr capTemplate\<rparr>
                 else t, None)"
  using assms by (simp add: ConvertTemplateJSON2Object_def Let_def)

text \<open>
  The amended C9 with an extension whose \<open>template\<close> is \<open>patch: {}\<close>: under a CUE schematic the descriptor
  gets the CUE template in its place, and under a Helm schematic, where the extracted
  string is empty, the descriptor keeps \<open>patch: {}\<close>.
\<close>

theorem ConvertTemplateJSON2Object_overlays_template_witness:
  "ConvertTemplateJSON2Object table_Unmarshal table_Unmarshal_Capability ''worker''
     (Some \<lparr>Raw = Some ''{\"template\":\"patch: {}\"}''\<rparr>)
     (Some \<lparr>CUE = Some \<lparr>cue_Template = ''output: {}''\<rparr>, HELM = None\<rparr>)
     = Some (\<lparr>Name = ''worker'', CueTemplate = ''output: {}''\<rparr>, None)
   \<and> ConvertTemplateJSON2Object table_Unmarshal table_Unmarshal_Capability ''worker''
     (Some \<lparr>Raw = Some ''{\"template\":\"patch: {}\"}''\<rparr>)
     (Some \<lparr>CUE = None, HELM = Some sample_Helm\<rparr>)
     = Some (\<lparr>Name = ''worker'', CueTemplate = ''patch: {}''\<rparr>, None)"
proof -
  let ?inp = "Some \<lparr>Raw = Some ''{\"template\":\"patch: {}\"}''\<rparr>"
  have dec: "unmarshal_extension table_Unmarshal_Capability ?inp
               (zero_Capability\<lparr>Name := ''worker''\<rparr>)
             = (\<lparr>Name = ''worker'', CueTemplate = ''patch: {}''\<rparr>, None)"
    by (simp add: unmarshal_extension_def table_Unmarshal_Capability_def zero_Capability_def)
  have cue: "NewTemplate table_Unmarshal
               (Some \<lparr>CUE = Some \<lparr>cue_Template = ''output: {}''\<rparr>, HELM = None\<rparr>) None ?inp
             = (Some (zero_Template\<lparr>TemplateStr := ''output: {}''\<rparr>), None)"
    by (simp add: NewTemplate_def)
  have helm: "NewTemplate table_Unmarshal (Some \<lparr>CUE = None, HELM = Some sample_Helm\<rparr>) None ?inp
             = (Some (zero_Template\<lparr>Helm := Some sample_Helm,
                        CapabilityCategory := HelmCategory\<rparr>), None)"
    by (simp add: NewTemplate_def)
  show ?thesis
    using ConvertTemplateJSON2Object_overlays_template [OF cue dec]
      ConvertTemplateJSON2Object_overlays_template [OF helm dec]
    by (simp add: zero_Template_def)
qed

end
